theory Spec2Isabelle
  imports Complex_Main
begin

section \<open>The water potability page: values, artifact and display\<close>

text \<open>
  \<^verbatim>\<open>app.py\<close> is a Streamlit script: every interaction of the user runs it from its
  first line to its last. One run is modelled as a program over a \<open>world\<close> that holds what
  the run does to its surroundings: the elements it puts on the page, the calls it makes on
  the unpickled objects, and the time it sleeps. A run ends normally, by \<^verbatim>\<open>st.stop()\<close>,
  or with an exception that nothing catches.

  Python floats are modelled as \<open>real\<close>; rounding is not modelled. The pictographs of the
  page's texts are left out, and a text block is named rather than spelt out.
\<close>

type_synonym matrix = "real list list"

datatype exn =
    FileNotFoundError
  | PermissionError
  | IsADirectoryError
  | EOFError
  | UnpicklingError
  | ValueError
  | TypeError
  | IndexError
  | StreamlitAPIException

text \<open>How a run of the script ends when it does not reach its last line.\<close>

datatype halt = Stopped | Uncaught exn

text \<open>
  The two objects of \<^verbatim>\<open>rf_model.pkl\<close>. The script uses three of their methods; each
  may raise. \<open>n_features_in\<close> is the number of columns the fitted object expects
  (scikit-learn's \<^verbatim>\<open>n_features_in_\<close>); the script never reads it.
\<close>

record classifier =
  predict :: "matrix \<Rightarrow> exn + int list"
  predict_proba :: "matrix \<Rightarrow> exn + real list list"
  model_features_in :: nat

record scaler_t =
  transform :: "matrix \<Rightarrow> exn + matrix"
  n_features_in :: nat

type_synonym artifact = "classifier \<times> scaler_t"

subsection \<open>The nine fields\<close>

datatype field =
    PH | Hardness | Solids | Chloramines | Sulfate
  | Conductivity | OrganicCarbon | Trihalomethanes | Turbidity

text \<open>The keyword arguments of one \<^verbatim>\<open>st.sidebar.number_input\<close> call.\<close>

record field_spec =
  min_value :: real
  max_value :: real
  default_value :: real
  step :: real

definition ph_spec :: field_spec where
  "ph_spec = \<lparr>min_value = 0.0, max_value = 14.0, default_value = 7.0, step = 0.1\<rparr>"

definition hardness_spec :: field_spec where
  "hardness_spec = \<lparr>min_value = 0.0, max_value = 500.0, default_value = 150.0, step = 1.0\<rparr>"

definition solids_spec :: field_spec where
  "solids_spec = \<lparr>min_value = 0.0, max_value = 60000.0, default_value = 20000.0, step = 100.0\<rparr>"

definition chloramines_spec :: field_spec where
  "chloramines_spec = \<lparr>min_value = 0.0, max_value = 10.0, default_value = 7.0, step = 0.1\<rparr>"

definition sulfate_spec :: field_spec where
  "sulfate_spec = \<lparr>min_value = 0.0, max_value = 600.0, default_value = 330.0, step = 1.0\<rparr>"

definition conductivity_spec :: field_spec where
  "conductivity_spec = \<lparr>min_value = 0.0, max_value = 800.0, default_value = 400.0, step = 1.0\<rparr>"

definition organic_carbon_spec :: field_spec where
  "organic_carbon_spec = \<lparr>min_value = 0.0, max_value = 30.0, default_value = 10.0, step = 0.1\<rparr>"

definition trihalomethanes_spec :: field_spec where
  "trihalomethanes_spec = \<lparr>min_value = 0.0, max_value = 120.0, default_value = 60.0, step = 1.0\<rparr>"

definition turbidity_spec :: field_spec where
  "turbidity_spec = \<lparr>min_value = 0.0, max_value = 10.0, default_value = 3.0, step = 0.1\<rparr>"

text \<open>The arguments each field's widget is created with, as the sidebar creates them.\<close>

fun spec_of :: "field \<Rightarrow> field_spec" where
  "spec_of PH = ph_spec"
| "spec_of Hardness = hardness_spec"
| "spec_of Solids = solids_spec"
| "spec_of Chloramines = chloramines_spec"
| "spec_of Sulfate = sulfate_spec"
| "spec_of Conductivity = conductivity_spec"
| "spec_of OrganicCarbon = organic_carbon_spec"
| "spec_of Trihalomethanes = trihalomethanes_spec"
| "spec_of Turbidity = turbidity_spec"

subsection \<open>What the page shows\<close>

text \<open>A value under the format \<^verbatim>\<open>:.1%\<close> of an f-string.\<close>

datatype pct = Pct1 real

datatype block =
    Css | MainHeader | Subtitle | InfoBox | SidebarHeading | Rule | ParamInfo field
  | ResultsHeading | SafeCard | UnsafeCard | BreakdownHeading | DistributionHeading
  | AboutText | Footer

datatype message = ModelFileNotFound | ConfidenceLevel pct

datatype metric_label = SafeToDrink | UnsafeToDrink

datatype bar_label = PotableText pct | NotPotableText pct

datatype ui_event =
    PageConfig
  | Markdown block
  | SidebarMarkdown block
  | NumberInput field field_spec
  | Columns "nat list"
  | Button
  | Spinner
  | ProgressNew nat
  | ProgressSet nat
  | ProgressEmpty
  | ErrorBox message
  | SuccessBox message
  | Metric metric_label pct pct
  | ProgressBar real bar_label
  | Expander block

datatype call = Transform matrix | Predict matrix | PredictProba matrix

text \<open>\<open>clock\<close> counts the hundredths of a second the run has slept.\<close>

record world =
  clock :: nat
  ui :: "ui_event list"
  calls :: "call list"

section \<open>Programs over the world\<close>

type_synonym 'a prog = "world \<Rightarrow> (halt + 'a) \<times> world"

definition ret :: "'a \<Rightarrow> 'a prog" where
  "ret x w = (Inr x, w)"

definition raise :: "exn \<Rightarrow> 'a prog" where
  "raise e w = (Inl (Uncaught e), w)"

text \<open>\<^verbatim>\<open>st.stop()\<close>: the run ends here, and what the page holds so far stays.\<close>

definition st_stop :: "'a prog" where
  "st_stop w = (Inl Stopped, w)"

definition bind :: "'a prog \<Rightarrow> ('a \<Rightarrow> 'b prog) \<Rightarrow> 'b prog" where
  "bind m k w = (case m w of (Inl h, w') \<Rightarrow> (Inl h, w') | (Inr x, w') \<Rightarrow> k x w')"

definition seq :: "unit prog \<Rightarrow> 'b prog \<Rightarrow> 'b prog" where
  "seq m k = bind m (\<lambda>_. k)"

definition emit :: "ui_event \<Rightarrow> unit prog" where
  "emit ev w = (Inr (), w\<lparr>ui := ui w @ [ev]\<rparr>)"

text \<open>A value of Python that may be an exception, taken into a program.\<close>

definition lift :: "exn + 'a \<Rightarrow> 'a prog" where
  "lift r = (case r of Inl e \<Rightarrow> raise e | Inr x \<Rightarrow> ret x)"

text \<open>\<^verbatim>\<open>xs[i]\<close> for an index that is not negative.\<close>

definition index :: "'a list \<Rightarrow> nat \<Rightarrow> 'a prog" where
  "index xs i = (if i < length xs then ret (xs ! i) else raise IndexError)"

text \<open>\<^verbatim>\<open>for i in range(...): body\<close>\<close>

fun for_range :: "nat list \<Rightarrow> (nat \<Rightarrow> unit prog) \<Rightarrow> unit prog" where
  "for_range [] body = ret ()"
| "for_range (i # rest) body = seq (body i) (for_range rest body)"

subsection \<open>The calls of the script\<close>

definition st_set_page_config :: "unit prog" where
  "st_set_page_config = emit PageConfig"

definition st_markdown :: "block \<Rightarrow> unit prog" where
  "st_markdown b = emit (Markdown b)"

definition st_sidebar_markdown :: "block \<Rightarrow> unit prog" where
  "st_sidebar_markdown b = emit (SidebarMarkdown b)"

definition st_error :: "message \<Rightarrow> unit prog" where
  "st_error m = emit (ErrorBox m)"

definition st_success :: "message \<Rightarrow> unit prog" where
  "st_success m = emit (SuccessBox m)"

definition st_columns :: "nat list \<Rightarrow> unit prog" where
  "st_columns ws = emit (Columns ws)"

definition st_button :: "bool \<Rightarrow> bool prog" where
  "st_button clicked = seq (emit Button) (ret clicked)"

definition st_spinner :: "unit prog" where
  "st_spinner = emit Spinner"

definition st_metric :: "metric_label \<Rightarrow> pct \<Rightarrow> pct \<Rightarrow> unit prog" where
  "st_metric l v d = emit (Metric l v d)"

definition st_expander :: "block \<Rightarrow> unit prog" where
  "st_expander b = emit (Expander b)"

definition time_sleep :: "nat \<Rightarrow> unit prog" where
  "time_sleep n w = (Inr (), w\<lparr>clock := clock w + n\<rparr>)"

text \<open>
  \<^verbatim>\<open>st.progress\<close> and \<^verbatim>\<open>progress_bar.progress\<close> take an integer from 0 to 100 or a
  float from 0.0 to 1.0 and raise on any other value.
\<close>

definition st_progress_new :: "nat \<Rightarrow> unit prog" where
  "st_progress_new n = (if n \<le> 100 then emit (ProgressNew n) else raise StreamlitAPIException)"

definition progress_bar_progress :: "nat \<Rightarrow> unit prog" where
  "progress_bar_progress n = (if n \<le> 100 then emit (ProgressSet n) else raise StreamlitAPIException)"

definition progress_bar_empty :: "unit prog" where
  "progress_bar_empty = emit ProgressEmpty"

definition st_progress_text :: "real \<Rightarrow> bar_label \<Rightarrow> unit prog" where
  "st_progress_text v l =
     (if 0 \<le> v \<and> v \<le> 1 then emit (ProgressBar v l) else raise StreamlitAPIException)"

text \<open>The three calls on the unpickled objects; each is entered in the log of calls.\<close>

definition scaler_transform :: "scaler_t \<Rightarrow> matrix \<Rightarrow> matrix prog" where
  "scaler_transform scaler x w = lift (transform scaler x) (w\<lparr>calls := calls w @ [Transform x]\<rparr>)"

definition model_predict :: "classifier \<Rightarrow> matrix \<Rightarrow> int list prog" where
  "model_predict model x w = lift (predict model x) (w\<lparr>calls := calls w @ [Predict x]\<rparr>)"

definition model_predict_proba :: "classifier \<Rightarrow> matrix \<Rightarrow> real list list prog" where
  "model_predict_proba model x w =
     lift (predict_proba model x) (w\<lparr>calls := calls w @ [PredictProba x]\<rparr>)"

subsection \<open>The number input\<close>

text \<open>
  Modelled from the spec: \<^verbatim>\<open>st.sidebar.number_input\<close> is Streamlit's and not part of
  the repository. The spec's input surface holds a value from \<open>min\<close> to \<open>max\<close>, both
  included, and rejects an entry outside: the field starts at its default, an entry inside
  the bounds replaces the held value, an entry outside leaves it as it was. The widget
  cannot be created with a default outside its own bounds.
\<close>

definition in_bounds :: "field_spec \<Rightarrow> real \<Rightarrow> bool" where
  "in_bounds fs v = (min_value fs \<le> v \<and> v \<le> max_value fs)"

fun held_value :: "field_spec \<Rightarrow> real \<Rightarrow> real list \<Rightarrow> real" where
  "held_value fs cur [] = cur"
| "held_value fs cur (v # vs) = held_value fs (if in_bounds fs v then v else cur) vs"

definition number_input :: "field \<Rightarrow> field_spec \<Rightarrow> real list \<Rightarrow> real prog" where
  "number_input f fs entered =
     (if in_bounds fs (default_value fs)
      then seq (emit (NumberInput f fs)) (ret (held_value fs (default_value fs) entered))
      else raise StreamlitAPIException)"

section \<open>The script\<close>

text \<open>
  What one run of the script is given: what opening and unpickling \<^verbatim>\<open>rf_model.pkl\<close>
  gives (the pair \<^verbatim>\<open>model, scaler\<close> or the exception raised), what the user has typed into
  each field so far (oldest entry first), and whether this run was started by the button.
\<close>

record env =
  artifact_file :: "exn + artifact"
  entered :: "field \<Rightarrow> real list"
  clicked :: bool

text \<open>The nine variables the sidebar assigns.\<close>

record inputs =
  ph :: real
  hardness :: real
  solids :: real
  chloramines :: real
  sulfate :: real
  conductivity :: real
  organic_carbon :: real
  trihalomethanes :: real
  turbidity :: real

text \<open>
  \<^verbatim>\<open>try: ... model, scaler = pickle.load(file)\<close>\<^verbatim>\<open> except FileNotFoundError: st.error(...); st.stop()\<close>
\<close>

definition load_model :: "exn + artifact \<Rightarrow> artifact prog" where
  "load_model file =
     (case file of
        Inr (model, scaler) \<Rightarrow> ret (model, scaler)
      | Inl e \<Rightarrow>
          (if e = FileNotFoundError then seq (st_error ModelFileNotFound) st_stop
           else raise e))"

definition app_header :: "unit prog" where
  "app_header =
     seq (st_markdown MainHeader)
    (seq (st_markdown Subtitle)
         (st_markdown InfoBox))"

definition sidebar :: "(field \<Rightarrow> real list) \<Rightarrow> inputs prog" where
  "sidebar ent =
     seq (st_sidebar_markdown SidebarHeading)
    (seq (st_sidebar_markdown Rule)
    (bind (number_input PH ph_spec (ent PH)) (\<lambda>ph.
     seq (st_sidebar_markdown (ParamInfo PH))
    (bind (number_input Hardness hardness_spec (ent Hardness)) (\<lambda>hardness.
     seq (st_sidebar_markdown (ParamInfo Hardness))
    (bind (number_input Solids solids_spec (ent Solids)) (\<lambda>solids.
     seq (st_sidebar_markdown (ParamInfo Solids))
    (bind (number_input Chloramines chloramines_spec (ent Chloramines)) (\<lambda>chloramines.
     seq (st_sidebar_markdown (ParamInfo Chloramines))
    (bind (number_input Sulfate sulfate_spec (ent Sulfate)) (\<lambda>sulfate.
     seq (st_sidebar_markdown (ParamInfo Sulfate))
    (bind (number_input Conductivity conductivity_spec (ent Conductivity)) (\<lambda>conductivity.
     seq (st_sidebar_markdown (ParamInfo Conductivity))
    (bind (number_input OrganicCarbon organic_carbon_spec (ent OrganicCarbon)) (\<lambda>organic_carbon.
     seq (st_sidebar_markdown (ParamInfo OrganicCarbon))
    (bind (number_input Trihalomethanes trihalomethanes_spec (ent Trihalomethanes)) (\<lambda>trihalomethanes.
     seq (st_sidebar_markdown (ParamInfo Trihalomethanes))
    (bind (number_input Turbidity turbidity_spec (ent Turbidity)) (\<lambda>turbidity.
     seq (st_sidebar_markdown (ParamInfo Turbidity))
         (ret \<lparr>ph = ph, hardness = hardness, solids = solids, chloramines = chloramines,
               sulfate = sulfate, conductivity = conductivity,
               organic_carbon = organic_carbon, trihalomethanes = trihalomethanes,
               turbidity = turbidity\<rparr>))))))))))))))))))))"

text \<open>\<^verbatim>\<open>input_data = np.array([[ph, hardness, ..., turbidity]])\<close>\<close>

definition input_data :: "inputs \<Rightarrow> matrix" where
  "input_data i =
     [[ph i, hardness i, solids i, chloramines i, sulfate i,
       conductivity i, organic_carbon i, trihalomethanes i, turbidity i]]"

text \<open>The loop under the spinner: a hundred sleeps of a hundredth of a second.\<close>

definition progress_step :: "nat \<Rightarrow> unit prog" where
  "progress_step i = seq (time_sleep 1) (progress_bar_progress (i + 1))"

definition progress_loop :: "unit prog" where
  "progress_loop = for_range [0..<100] progress_step"

text \<open>
  The block under \<^verbatim>\<open>with st.spinner('')\<close>; it leaves \<^verbatim>\<open>pred\<close>, \<^verbatim>\<open>prob_potable\<close> and
  \<^verbatim>\<open>prob_not_potable\<close>.
\<close>

definition make_prediction :: "classifier \<Rightarrow> matrix \<Rightarrow> (int list \<times> real \<times> real) prog" where
  "make_prediction model input_scaled =
     bind (model_predict model input_scaled) (\<lambda>pred.
     bind (model_predict_proba model input_scaled) (\<lambda>proba.
     bind (index proba 0) (\<lambda>prob.
     bind (index prob 1) (\<lambda>prob_potable.
     bind (index prob 0) (\<lambda>prob_not_potable.
     ret (pred, prob_potable, prob_not_potable))))))"

definition spinner_block :: "classifier \<Rightarrow> matrix \<Rightarrow> (int list \<times> real \<times> real) prog" where
  "spinner_block model input_scaled =
     seq st_spinner
    (seq (st_progress_new 0)
    (seq progress_loop
    (bind (make_prediction model input_scaled) (\<lambda>r.
     seq progress_bar_empty
         (ret r)))))"

text \<open>The verdict: \<^verbatim>\<open>if pred[0] == 1: ... else: ...\<close>\<close>

definition present :: "int \<Rightarrow> real \<Rightarrow> real \<Rightarrow> unit prog" where
  "present label prob_potable prob_not_potable =
     (if label = 1
      then seq (st_markdown SafeCard) (st_success (ConfidenceLevel (Pct1 prob_potable)))
      else seq (st_markdown UnsafeCard) (st_error (ConfidenceLevel (Pct1 prob_not_potable))))"

text \<open>
  The \<^verbatim>\<open>delta\<close> of a metric:
  \<^verbatim>\<open>f"{p - 0.5:.1%}" if p > 0.5 else f"{p - 0.5:.1%}"\<close>
\<close>

definition delta_above :: "real \<Rightarrow> pct" where
  "delta_above p = Pct1 (p - 0.5)"

definition delta_otherwise :: "real \<Rightarrow> pct" where
  "delta_otherwise p = Pct1 (p - 0.5)"

definition metric_delta :: "real \<Rightarrow> pct" where
  "metric_delta p = (if p > 0.5 then delta_above p else delta_otherwise p)"

text \<open>The two metrics and the two bars; \<^verbatim>\<open>st.columns(2)\<close> is two columns of equal width.\<close>

definition confidence_breakdown :: "real \<Rightarrow> real \<Rightarrow> unit prog" where
  "confidence_breakdown prob_potable prob_not_potable =
     seq (st_markdown BreakdownHeading)
    (seq (st_columns [1, 1])
    (seq (st_metric SafeToDrink (Pct1 prob_potable) (metric_delta prob_potable))
    (seq (st_metric UnsafeToDrink (Pct1 prob_not_potable) (metric_delta prob_not_potable))
    (seq (st_markdown DistributionHeading)
    (seq (st_progress_text prob_potable (PotableText (Pct1 prob_potable)))
         (st_progress_text prob_not_potable (NotPotableText (Pct1 prob_not_potable))))))))"

definition display_results :: "int list \<times> real \<times> real \<Rightarrow> unit prog" where
  "display_results r =
     (case r of (pred, prob_potable, prob_not_potable) \<Rightarrow>
        seq (st_markdown ResultsHeading)
       (bind (index pred 0) (\<lambda>label.
        seq (present label prob_potable prob_not_potable)
            (confidence_breakdown prob_potable prob_not_potable))))"

definition prediction_section :: "classifier \<Rightarrow> matrix \<Rightarrow> unit prog" where
  "prediction_section model input_scaled =
     bind (spinner_block model input_scaled) display_results"

definition about_and_footer :: "unit prog" where
  "about_and_footer =
     seq (st_expander AboutText)
    (seq (st_markdown Rule)
         (st_markdown Footer))"

text \<open>The whole script, from \<^verbatim>\<open>st.set_page_config\<close> to the footer.\<close>

definition app :: "env \<Rightarrow> unit prog" where
  "app e =
     seq st_set_page_config
    (seq (st_markdown Css)
    (bind (load_model (artifact_file e)) (\<lambda>(model, scaler).
     seq app_header
    (bind (sidebar (entered e)) (\<lambda>i.
     bind (scaler_transform scaler (input_data i)) (\<lambda>input_scaled.
     seq (st_markdown Rule)
    (seq (st_columns [1, 2, 1])
    (bind (st_button (clicked e)) (\<lambda>predict_button.
     seq (if predict_button then prediction_section model input_scaled else ret ())
         about_and_footer)))))))))"

section \<open>Notions of the specification and of the statements\<close>

text \<open>
  The order of the feature vector, as the specification's data model gives it: pH, Hardness,
  Solids, Chloramines, Sulfate, Conductivity, OrganicCarbon, Trihalomethanes, Turbidity.
\<close>

definition trained_order :: "field list" where
  "trained_order =
     [PH, Hardness, Solids, Chloramines, Sulfate,
      Conductivity, OrganicCarbon, Trihalomethanes, Turbidity]"

text \<open>
  The table of the specification's external interfaces, row by row: field, minimum,
  maximum, default, step.
\<close>

definition interface_table :: "(field \<times> real \<times> real \<times> real \<times> real) list" where
  "interface_table =
     [(PH, 0.0, 14.0, 7.0, 0.1),
      (Hardness, 0.0, 500.0, 150.0, 1.0),
      (Solids, 0.0, 60000.0, 20000.0, 100.0),
      (Chloramines, 0.0, 10.0, 7.0, 0.1),
      (Sulfate, 0.0, 600.0, 330.0, 1.0),
      (Conductivity, 0.0, 800.0, 400.0, 1.0),
      (OrganicCarbon, 0.0, 30.0, 10.0, 0.1),
      (Trihalomethanes, 0.0, 120.0, 60.0, 1.0),
      (Turbidity, 0.0, 10.0, 3.0, 0.1)]"

definition row_spec :: "field \<times> real \<times> real \<times> real \<times> real \<Rightarrow> field_spec" where
  "row_spec r =
     (case r of (f, lo, hi, d, s) \<Rightarrow>
        \<lparr>min_value = lo, max_value = hi, default_value = d, step = s\<rparr>)"

text \<open>The variable of the script that holds a field's value.\<close>

fun field_value :: "inputs \<Rightarrow> field \<Rightarrow> real" where
  "field_value i PH = ph i"
| "field_value i Hardness = hardness i"
| "field_value i Solids = solids i"
| "field_value i Chloramines = chloramines i"
| "field_value i Sulfate = sulfate i"
| "field_value i Conductivity = conductivity i"
| "field_value i OrganicCarbon = organic_carbon i"
| "field_value i Trihalomethanes = trihalomethanes i"
| "field_value i Turbidity = turbidity i"

text \<open>What a field's widget holds after the entries \<open>ent\<close>.\<close>

definition widget_value :: "(field \<Rightarrow> real list) \<Rightarrow> field \<Rightarrow> real" where
  "widget_value ent f = held_value (spec_of f) (default_value (spec_of f)) (ent f)"

text \<open>The nine variables, each holding what the widget of its own field holds.\<close>

definition sidebar_inputs :: "(field \<Rightarrow> real list) \<Rightarrow> inputs" where
  "sidebar_inputs ent =
     \<lparr>ph = widget_value ent PH, hardness = widget_value ent Hardness,
      solids = widget_value ent Solids, chloramines = widget_value ent Chloramines,
      sulfate = widget_value ent Sulfate, conductivity = widget_value ent Conductivity,
      organic_carbon = widget_value ent OrganicCarbon,
      trihalomethanes = widget_value ent Trihalomethanes,
      turbidity = widget_value ent Turbidity\<rparr>"

definition is_number_input :: "ui_event \<Rightarrow> bool" where
  "is_number_input ev = (case ev of NumberInput f fs \<Rightarrow> True | _ \<Rightarrow> False)"

text \<open>A world moved on by a time slept, elements put on the page and calls made.\<close>

definition advance :: "nat \<Rightarrow> ui_event list \<Rightarrow> call list \<Rightarrow> world \<Rightarrow> world" where
  "advance t evs cs w = w\<lparr>clock := clock w + t, ui := ui w @ evs, calls := calls w @ cs\<rparr>"

text \<open>A program whose end and additions are the same from every world.\<close>

definition uniform :: "'a prog \<Rightarrow> bool" where
  "uniform p = (\<exists>r t evs cs. \<forall>w. p w = (r, advance t evs cs w))"

text \<open>The page up to the sidebar's last line, when the artifact has loaded.\<close>

definition header_page :: "ui_event list" where
  "header_page = [PageConfig, Markdown Css, Markdown MainHeader, Markdown Subtitle, Markdown InfoBox]"

definition sidebar_page :: "ui_event list" where
  "sidebar_page =
     [SidebarMarkdown SidebarHeading, SidebarMarkdown Rule,
      NumberInput PH ph_spec, SidebarMarkdown (ParamInfo PH),
      NumberInput Hardness hardness_spec, SidebarMarkdown (ParamInfo Hardness),
      NumberInput Solids solids_spec, SidebarMarkdown (ParamInfo Solids),
      NumberInput Chloramines chloramines_spec, SidebarMarkdown (ParamInfo Chloramines),
      NumberInput Sulfate sulfate_spec, SidebarMarkdown (ParamInfo Sulfate),
      NumberInput Conductivity conductivity_spec, SidebarMarkdown (ParamInfo Conductivity),
      NumberInput OrganicCarbon organic_carbon_spec, SidebarMarkdown (ParamInfo OrganicCarbon),
      NumberInput Trihalomethanes trihalomethanes_spec, SidebarMarkdown (ParamInfo Trihalomethanes),
      NumberInput Turbidity turbidity_spec, SidebarMarkdown (ParamInfo Turbidity)]"

definition progress_page :: "ui_event list" where
  "progress_page = map (\<lambda>i. ProgressSet (i + 1)) [0..<100]"

text \<open>The elements of a request that runs to its end, for probabilities from 0 to 1.\<close>

definition spinner_page :: "ui_event list" where
  "spinner_page = [Spinner, ProgressNew 0] @ progress_page @ [ProgressEmpty]"

definition verdict_page :: "int \<Rightarrow> real \<Rightarrow> real \<Rightarrow> ui_event list" where
  "verdict_page label p_potable p_not_potable =
     (if label = 1 then [Markdown SafeCard, SuccessBox (ConfidenceLevel (Pct1 p_potable))]
      else [Markdown UnsafeCard, ErrorBox (ConfidenceLevel (Pct1 p_not_potable))])"

definition breakdown_page :: "real \<Rightarrow> real \<Rightarrow> ui_event list" where
  "breakdown_page p_potable p_not_potable =
     [Markdown BreakdownHeading, Columns [1, 1],
      Metric SafeToDrink (Pct1 p_potable) (Pct1 (p_potable - 0.5)),
      Metric UnsafeToDrink (Pct1 p_not_potable) (Pct1 (p_not_potable - 0.5)),
      Markdown DistributionHeading,
      ProgressBar p_potable (PotableText (Pct1 p_potable)),
      ProgressBar p_not_potable (NotPotableText (Pct1 p_not_potable))]"

text \<open>The elements that tell the verdict: the two cards and the two boxes.\<close>

fun is_verdict :: "ui_event \<Rightarrow> bool" where
  "is_verdict (Markdown b) = (b = SafeCard \<or> b = UnsafeCard)"
| "is_verdict (SuccessBox m) = True"
| "is_verdict (ErrorBox m) = True"
| "is_verdict ev = False"

definition button_page :: "ui_event list" where
  "button_page = [Markdown Rule, Columns [1, 2, 1], Button]"

definition footer_page :: "ui_event list" where
  "footer_page = [Expander AboutText, Markdown Rule, Markdown Footer]"

text \<open>The block under the spinner with the loop of sleeps taken out, to compare with.\<close>

definition spinner_block_no_delay :: "classifier \<Rightarrow> matrix \<Rightarrow> (int list \<times> real \<times> real) prog" where
  "spinner_block_no_delay model input_scaled =
     seq st_spinner
    (seq (st_progress_new 0)
    (bind (make_prediction model input_scaled) (\<lambda>r.
     seq progress_bar_empty
         (ret r))))"

subsection \<open>Concrete runs\<close>

definition world0 :: world where
  "world0 = \<lparr>clock = 0, ui = [], calls = []\<rparr>"

definition no_entries :: "field \<Rightarrow> real list" where
  "no_entries f = []"

text \<open>A classifier that answers label 1 with probabilities 0.25 and 0.75 on every sample.\<close>

definition sample_model :: classifier where
  "sample_model =
     \<lparr>predict = (\<lambda>x. Inr [1]), predict_proba = (\<lambda>x. Inr [[0.25, 0.75]]),
      model_features_in = 9\<rparr>"

text \<open>A classifier that answers label 1 while it gives class 1 the probability 0.3.\<close>

definition low_threshold_model :: classifier where
  "low_threshold_model =
     \<lparr>predict = (\<lambda>x. Inr [1]), predict_proba = (\<lambda>x. Inr [[0.7, 0.3]]),
      model_features_in = 9\<rparr>"

text \<open>A classifier fitted on eight columns; it answers label 1 on every sample.\<close>

definition eight_column_model :: classifier where
  "eight_column_model =
     \<lparr>predict = (\<lambda>x. Inr [1]), predict_proba = (\<lambda>x. Inr [[0.25, 0.75]]),
      model_features_in = 8\<rparr>"

text \<open>A scaler that doubles every entry.\<close>

definition sample_scaler :: scaler_t where
  "sample_scaler = \<lparr>transform = (\<lambda>x. Inr (map (map (\<lambda>v. 2 * v)) x)), n_features_in = 9\<rparr>"

text \<open>A scaler fitted on eight columns that cuts every row down to eight without raising.\<close>

definition truncating_scaler :: scaler_t where
  "truncating_scaler = \<lparr>transform = (\<lambda>x. Inr (map (take 8) x)), n_features_in = 8\<rparr>"

text \<open>A scaler fitted on eight columns that raises on any other width, as scikit-learn's do.\<close>

definition strict_scaler :: scaler_t where
  "strict_scaler =
     \<lparr>transform = (\<lambda>x. if list_all (\<lambda>r. length r = 8) x then Inr x else Inl ValueError),
      n_features_in = 8\<rparr>"

definition sample_env :: env where
  "sample_env =
     \<lparr>artifact_file = Inr (sample_model, sample_scaler), entered = no_entries, clicked = True\<rparr>"

definition missing_file_env :: env where
  "missing_file_env =
     \<lparr>artifact_file = Inl FileNotFoundError, entered = no_entries, clicked = False\<rparr>"

definition unreadable_file_env :: env where
  "unreadable_file_env =
     \<lparr>artifact_file = Inl PermissionError, entered = no_entries, clicked = False\<rparr>"

definition truncating_env :: env where
  "truncating_env =
     \<lparr>artifact_file = Inr (eight_column_model, truncating_scaler), entered = no_entries,
      clicked = True\<rparr>"

definition strict_env :: env where
  "strict_env =
     \<lparr>artifact_file = Inr (eight_column_model, strict_scaler), entered = no_entries,
      clicked = True\<rparr>"

section \<open>Running programs\<close>

lemma bind_ret: "bind (ret x) k = k x"
  by (rule ext) (simp add: bind_def ret_def)

lemma bind_raise: "bind (raise e) k = raise e"
  by (rule ext) (simp add: bind_def raise_def)

lemma bind_stop: "bind st_stop k = st_stop"
  by (rule ext) (simp add: bind_def st_stop_def)

lemma seq_ret: "seq (ret ()) k = k"
  by (simp add: seq_def bind_ret)

lemma seq_raise: "seq (raise e) k = raise e"
  by (simp add: seq_def bind_raise)

lemma bind_seq: "bind (seq m k) f = seq m (bind k f)"
  by (rule ext) (simp add: seq_def bind_def split: prod.splits sum.splits)

lemma bind_bind: "bind (bind m k) f = bind m (\<lambda>x. bind (k x) f)"
  by (rule ext) (simp add: bind_def split: prod.splits sum.splits)

lemma seq_seq: "seq (seq m k) f = seq m (seq k f)"
  by (simp add: seq_def bind_bind)

lemma advance_zero: "advance 0 [] [] w = w"
  by (simp add: advance_def)

lemma advance_advance:
  "advance t2 e2 c2 (advance t1 e1 c1 w) = advance (t1 + t2) (e1 @ e2) (c1 @ c2) w"
  by (simp add: advance_def)

lemma advance_sel:
  "clock (advance t evs cs w) = clock w + t"
  "ui (advance t evs cs w) = ui w @ evs"
  "calls (advance t evs cs w) = calls w @ cs"
  by (simp_all add: advance_def)

lemma emit_run: "emit ev w = (Inr (), advance 0 [ev] [] w)"
  by (simp add: emit_def advance_def)

lemma seq_emit: "seq (emit ev) k w = k (advance 0 [ev] [] w)"
  by (simp add: seq_def bind_def emit_run)

lemma seq_sleep: "seq (time_sleep n) k w = k (advance n [] [] w)"
  by (simp add: seq_def bind_def time_sleep_def advance_def)

lemmas st_defs = st_set_page_config_def st_markdown_def st_sidebar_markdown_def st_error_def
  st_success_def st_columns_def st_spinner_def st_metric_def st_expander_def
  progress_bar_empty_def

subsection \<open>The loop of sleeps\<close>

text \<open>
  Over any list of indices below 100 the loop never raises: it sleeps once and moves the
  bar once per index, and makes no call.
\<close>

lemma progress_range_run:
  "\<forall>i \<in> set xs. i < 100 \<Longrightarrow>
   for_range xs progress_step w =
     (Inr (), advance (length xs) (map (\<lambda>i. ProgressSet (i + 1)) xs) [] w)"
proof (induction xs arbitrary: w)
  case Nil
  then show ?case by (simp add: ret_def advance_zero)
next
  case (Cons i rest)
  then have "i + 1 \<le> 100" by simp
  then have step: "progress_step i = seq (time_sleep 1) (emit (ProgressSet (i + 1)))"
    by (simp add: progress_step_def progress_bar_progress_def)
  from Cons show ?case
    by (simp add: step seq_seq seq_sleep seq_emit advance_advance)
qed

lemma progress_loop_run: "progress_loop w = (Inr (), advance 100 progress_page [] w)"
  using progress_range_run [of "[0..<100]" w]
  by (simp add: progress_loop_def progress_page_def)

lemma seq_progress_loop: "seq progress_loop k w = k (advance 100 progress_page [] w)"
  by (simp add: seq_def bind_def progress_loop_run)

subsection \<open>Programs that do the same from every world\<close>

text \<open>
  Every program of the script ends the same way and adds the same time, elements and calls
  whatever the world it starts in: nothing in the script reads the clock, the page or the
  log of calls.
\<close>

lemma uniformI: "(\<And>w. p w = (r, advance t evs cs w)) \<Longrightarrow> uniform p"
  unfolding uniform_def by blast

lemma uniform_ret: "uniform (ret x)"
  by (rule uniformI [of _ "Inr x" 0 "[]" "[]"]) (simp add: ret_def advance_zero)

lemma uniform_raise: "uniform (raise e)"
  by (rule uniformI [of _ "Inl (Uncaught e)" 0 "[]" "[]"]) (simp add: raise_def advance_zero)

lemma uniform_stop: "uniform st_stop"
  by (rule uniformI [of _ "Inl Stopped" 0 "[]" "[]"]) (simp add: st_stop_def advance_zero)

lemma uniform_emit: "uniform (emit ev)"
  by (rule uniformI [of _ "Inr ()" 0 "[ev]" "[]"]) (simp add: emit_run)

lemma uniform_sleep: "uniform (time_sleep n)"
  by (rule uniformI [of _ "Inr ()" n "[]" "[]"]) (simp add: time_sleep_def advance_def)

lemma uniform_bind:
  assumes m: "uniform m" and k: "\<And>x. uniform (k x)"
  shows "uniform (bind m k)"
proof -
  from m obtain r t evs cs where run_m: "\<And>w. m w = (r, advance t evs cs w)"
    unfolding uniform_def by blast
  show ?thesis
  proof (cases r)
    case (Inl h)
    show ?thesis
      by (rule uniformI [of _ "Inl h" t evs cs]) (simp add: bind_def run_m Inl)
  next
    case (Inr x)
    from k [of x] obtain r' t' evs' cs' where run_k: "\<And>w. k x w = (r', advance t' evs' cs' w)"
      unfolding uniform_def by blast
    show ?thesis
      by (rule uniformI [of _ r' "t + t'" "evs @ evs'" "cs @ cs'"])
        (simp add: bind_def run_m Inr run_k advance_advance)
  qed
qed

lemma uniform_seq: "uniform m \<Longrightarrow> uniform k \<Longrightarrow> uniform (seq m k)"
  by (simp add: seq_def uniform_bind)

lemma uniform_lift: "uniform (lift r)"
  by (cases r) (simp_all add: lift_def uniform_raise uniform_ret)

lemma uniform_index: "uniform (index xs i)"
  by (simp add: index_def uniform_raise uniform_ret)

lemma uniform_call:
  "uniform (scaler_transform scaler x)"
  "uniform (model_predict model x)"
  "uniform (model_predict_proba model x)"
proof -
  have shift: "\<And>c w. w\<lparr>calls := calls w @ [c]\<rparr> = advance 0 [] [c] w"
    by (simp add: advance_def)
  have logged: "\<And>(r :: exn + 'a) c. uniform (\<lambda>w. lift r (advance 0 [] [c] w))"
  proof -
    fix r :: "exn + 'a" and c
    from uniform_lift [of r] obtain r' t evs cs where "\<And>w. lift r w = (r', advance t evs cs w)"
      unfolding uniform_def by blast
    then show "uniform (\<lambda>w. lift r (advance 0 [] [c] w))"
      by (intro uniformI [of _ r' t evs "c # cs"]) (simp add: advance_advance)
  qed
  show "uniform (scaler_transform scaler x)"
    using logged [of "transform scaler x" "Transform x"]
    by (simp add: scaler_transform_def [abs_def] shift)
  show "uniform (model_predict model x)"
    using logged [of "predict model x" "Predict x"]
    by (simp add: model_predict_def [abs_def] shift)
  show "uniform (model_predict_proba model x)"
    using logged [of "predict_proba model x" "PredictProba x"]
    by (simp add: model_predict_proba_def [abs_def] shift)
qed

lemma uniform_for_range: "(\<And>i. uniform (body i)) \<Longrightarrow> uniform (for_range xs body)"
  by (induction xs) (simp_all add: uniform_ret uniform_seq)

lemma uniform_number_input: "uniform (number_input f fs vs)"
  by (simp add: number_input_def uniform_seq uniform_emit uniform_ret uniform_raise)

lemmas uniform_intros = uniform_ret uniform_raise uniform_stop uniform_emit uniform_sleep
  uniform_bind uniform_seq uniform_lift uniform_index uniform_call uniform_for_range
  uniform_number_input

lemma uniform_sidebar: "uniform (sidebar ent)"
  unfolding sidebar_def st_defs by (intro uniform_intros)

lemma uniform_progress_loop: "uniform progress_loop"
  unfolding progress_loop_def progress_step_def progress_bar_progress_def
  by (intro uniform_intros) (simp add: uniform_emit uniform_raise)

lemma uniform_make_prediction: "uniform (make_prediction model x)"
  unfolding make_prediction_def by (intro uniform_intros)

lemma uniform_spinner_block: "uniform (spinner_block model x)"
  unfolding spinner_block_def st_defs st_progress_new_def
  by (simp add: uniform_intros uniform_progress_loop uniform_make_prediction)

lemma uniform_present: "uniform (present l pp pn)"
  unfolding present_def st_defs by (simp add: uniform_intros)

lemma uniform_confidence_breakdown: "uniform (confidence_breakdown pp pn)"
  unfolding confidence_breakdown_def st_defs st_progress_text_def
  by (simp add: uniform_intros)

lemma uniform_display_results: "uniform (display_results r)"
  unfolding display_results_def st_defs
  by (cases r) (simp add: uniform_intros uniform_present uniform_confidence_breakdown)

lemma uniform_prediction_section: "uniform (prediction_section model x)"
  unfolding prediction_section_def
  by (simp add: uniform_intros uniform_spinner_block uniform_display_results)

lemma uniform_load_model: "uniform (load_model file)"
  unfolding load_model_def st_defs
  by (simp add: uniform_intros split: sum.splits prod.splits)

lemma uniform_app: "uniform (app e)"
  unfolding app_def app_header_def about_and_footer_def st_button_def st_defs
  by (intro uniform_intros uniform_load_model uniform_sidebar)
    (simp_all add: uniform_intros uniform_sidebar uniform_prediction_section split: prod.splits)

subsection \<open>The sidebar\<close>

lemmas spec_defs = ph_spec_def hardness_spec_def solids_spec_def chloramines_spec_def
  sulfate_spec_def conductivity_spec_def organic_carbon_spec_def trihalomethanes_spec_def
  turbidity_spec_def

lemma default_in_bounds: "in_bounds (spec_of f) (default_value (spec_of f))"
  by (cases f) (simp_all add: in_bounds_def spec_defs)

lemma bind_number_input:
  "bind (number_input f (spec_of f) vs) k w =
     k (held_value (spec_of f) (default_value (spec_of f)) vs) (advance 0 [NumberInput f (spec_of f)] [] w)"
  by (simp add: number_input_def default_in_bounds bind_seq seq_emit bind_ret)

lemma sidebar_run: "sidebar ent w = (Inr (sidebar_inputs ent), advance 0 sidebar_page [] w)"
proof -
  have specs:
    "ph_spec = spec_of PH" "hardness_spec = spec_of Hardness" "solids_spec = spec_of Solids"
    "chloramines_spec = spec_of Chloramines" "sulfate_spec = spec_of Sulfate"
    "conductivity_spec = spec_of Conductivity" "organic_carbon_spec = spec_of OrganicCarbon"
    "trihalomethanes_spec = spec_of Trihalomethanes" "turbidity_spec = spec_of Turbidity"
    by simp_all
  show ?thesis
    unfolding sidebar_def sidebar_page_def st_defs specs
    by (simp only: seq_emit bind_number_input advance_advance)
      (simp add: ret_def sidebar_inputs_def widget_value_def)
qed

lemma bind_sidebar: "bind (sidebar ent) k w = k (sidebar_inputs ent) (advance 0 sidebar_page [] w)"
  by (simp add: bind_def sidebar_run)

subsection \<open>The calls, the block under the spinner and the results\<close>

lemma call_runs:
  "bind (scaler_transform scaler x) k w =
     (case transform scaler x of
        Inl e \<Rightarrow> (Inl (Uncaught e), advance 0 [] [Transform x] w)
      | Inr y \<Rightarrow> k y (advance 0 [] [Transform x] w))"
  "bind (model_predict model x) k' w =
     (case predict model x of
        Inl e \<Rightarrow> (Inl (Uncaught e), advance 0 [] [Predict x] w)
      | Inr y \<Rightarrow> k' y (advance 0 [] [Predict x] w))"
  "bind (model_predict_proba model x) k'' w =
     (case predict_proba model x of
        Inl e \<Rightarrow> (Inl (Uncaught e), advance 0 [] [PredictProba x] w)
      | Inr y \<Rightarrow> k'' y (advance 0 [] [PredictProba x] w))"
  by (simp_all add: bind_def scaler_transform_def model_predict_def model_predict_proba_def
      lift_def raise_def ret_def advance_def split: sum.splits)

lemma bind_run: "m w = (Inr x, w') \<Longrightarrow> bind m k w = k x w'"
  by (simp add: bind_def)

lemma seq_run: "m w = (Inr (), w') \<Longrightarrow> seq m k w = k w'"
  by (simp add: seq_def bind_def)

lemma make_prediction_run:
  assumes "predict model x = Inr pred"
    and "predict_proba model x = Inr ((p0 # p1 # ps) # rows)"
  shows "make_prediction model x w =
           (Inr (pred, p1, p0), advance 0 [] [Predict x, PredictProba x] w)"
  using assms
  by (simp add: make_prediction_def call_runs index_def bind_ret advance_advance ret_def)

lemma spinner_block_run:
  assumes "predict model x = Inr pred"
    and "predict_proba model x = Inr ((p0 # p1 # ps) # rows)"
  shows "spinner_block model x w =
           (Inr (pred, p1, p0), advance 100 spinner_page [Predict x, PredictProba x] w)"
  by (simp add: spinner_block_def st_defs st_progress_new_def seq_emit seq_progress_loop
      bind_run [OF make_prediction_run [OF assms]] advance_advance spinner_page_def ret_def)

lemma present_run:
  "present label pp pn w = (Inr (), advance 0 (verdict_page label pp pn) [] w)"
  by (simp add: present_def verdict_page_def st_defs seq_emit emit_run advance_advance)

lemma seq_present:
  "seq (present label pp pn) k w = k (advance 0 (verdict_page label pp pn) [] w)"
  by (simp add: seq_def bind_def present_run)

lemma confidence_breakdown_run:
  assumes "0 \<le> pp" "pp \<le> 1" "0 \<le> pn" "pn \<le> 1"
  shows "confidence_breakdown pp pn w = (Inr (), advance 0 (breakdown_page pp pn) [] w)"
  using assms
  by (simp add: confidence_breakdown_def breakdown_page_def st_defs st_progress_text_def
      seq_emit emit_run advance_advance metric_delta_def delta_above_def delta_otherwise_def)

lemma display_results_run:
  assumes "0 \<le> pp" "pp \<le> 1" "0 \<le> pn" "pn \<le> 1"
  shows "display_results (label # ls, pp, pn) w =
           (Inr (), advance 0 (Markdown ResultsHeading # verdict_page label pp pn @ breakdown_page pp pn) [] w)"
  by (simp add: display_results_def st_defs seq_emit index_def bind_ret seq_present
      confidence_breakdown_run [OF assms] advance_advance)

lemma app_loaded:
  assumes "artifact_file e = Inr (model, scaler)"
  shows "app e w =
     bind (scaler_transform scaler (input_data (sidebar_inputs (entered e)))) (\<lambda>input_scaled.
       seq (st_markdown Rule)
      (seq (st_columns [1, 2, 1])
      (bind (st_button (clicked e)) (\<lambda>predict_button.
       seq (if predict_button then prediction_section model input_scaled else ret ())
           about_and_footer))))
       (advance 0 (header_page @ sidebar_page) [] w)"
  by (simp add: app_def assms load_model_def bind_ret app_header_def st_defs seq_seq seq_emit
      bind_sidebar advance_advance header_page_def)

lemma about_and_footer_run: "about_and_footer w = (Inr (), advance 0 footer_page [] w)"
  by (simp add: about_and_footer_def footer_page_def st_defs seq_emit emit_run advance_advance)

lemma app_clicked_run:
  assumes "artifact_file e = Inr (model, scaler)"
    and "clicked e"
    and "transform scaler (input_data (sidebar_inputs (entered e))) = Inr scaled"
    and "predict model scaled = Inr (label # ls)"
    and "predict_proba model scaled = Inr ((p0 # p1 # ps) # rows)"
    and "0 \<le> p0" "p0 \<le> 1" "0 \<le> p1" "p1 \<le> 1"
  shows "app e w =
     (Inr (),
      advance 100
        (header_page @ sidebar_page @ button_page @ spinner_page @
         Markdown ResultsHeading # verdict_page label p1 p0 @ breakdown_page p1 p0 @ footer_page)
        [Transform (input_data (sidebar_inputs (entered e))), Predict scaled, PredictProba scaled]
        w)"
proof -
  have spin: "\<And>w. spinner_block model scaled w =
      (Inr (label # ls, p1, p0), advance 100 spinner_page [Predict scaled, PredictProba scaled] w)"
    using assms(4,5) by (rule spinner_block_run)
  have disp: "\<And>w. display_results (label # ls, p1, p0) w =
      (Inr (), advance 0 (Markdown ResultsHeading # verdict_page label p1 p0 @ breakdown_page p1 p0) [] w)"
    using assms(8,9,6,7) by (rule display_results_run)
  have sect: "\<And>w. prediction_section model scaled w =
      (Inr (), advance 100 (spinner_page @ Markdown ResultsHeading # verdict_page label p1 p0 @ breakdown_page p1 p0)
         [Predict scaled, PredictProba scaled] w)"
    by (simp add: prediction_section_def bind_run [OF spin] disp advance_advance)
  show ?thesis
    by (simp add: app_loaded [OF assms(1)] call_runs assms(2,3) st_defs seq_emit st_button_def
        bind_seq bind_ret seq_run [OF sect] about_and_footer_run advance_advance button_page_def)
qed

subsection \<open>The verdict on the page\<close>

lemma no_verdict_progress: "filter is_verdict progress_page = []"
  by (simp add: progress_page_def filter_map comp_def)

lemma no_verdict_spinner: "filter is_verdict spinner_page = []"
  by (simp add: spinner_page_def no_verdict_progress)

lemma confidence_breakdown_no_verdict:
  "\<exists>r evs. (\<forall>w. confidence_breakdown pp pn w = (r, advance 0 evs [] w)) \<and> filter is_verdict evs = []"
proof -
  let ?head = "[Markdown BreakdownHeading, Columns [1, 1],
      Metric SafeToDrink (Pct1 pp) (metric_delta pp),
      Metric UnsafeToDrink (Pct1 pn) (metric_delta pn),
      Markdown DistributionHeading]"
  consider (bad1) "\<not> (0 \<le> pp \<and> pp \<le> 1)"
    | (bad2) "0 \<le> pp \<and> pp \<le> 1" "\<not> (0 \<le> pn \<and> pn \<le> 1)"
    | (ok) "0 \<le> pp \<and> pp \<le> 1" "0 \<le> pn \<and> pn \<le> 1"
    by blast
  then show ?thesis
  proof cases
    case bad1
    then have c: "(0 \<le> pp \<and> pp \<le> 1) = False" by simp
    have "\<forall>w. confidence_breakdown pp pn w = (Inl (Uncaught StreamlitAPIException), advance 0 ?head [] w)"
      by (simp only: confidence_breakdown_def st_defs st_progress_text_def c if_True if_False)
        (simp add: seq_emit seq_raise raise_def emit_run advance_advance)
    then show ?thesis by (intro exI conjI) (assumption, simp)
  next
    case bad2
    then have c: "(0 \<le> pp \<and> pp \<le> 1) = True" "(0 \<le> pn \<and> pn \<le> 1) = False"
      by simp_all
    have "\<forall>w. confidence_breakdown pp pn w =
        (Inl (Uncaught StreamlitAPIException), advance 0 (?head @ [ProgressBar pp (PotableText (Pct1 pp))]) [] w)"
      by (simp only: confidence_breakdown_def st_defs st_progress_text_def c if_True if_False)
        (simp add: seq_emit seq_raise raise_def emit_run advance_advance)
    then show ?thesis by (intro exI conjI) (assumption, simp)
  next
    case ok
    then have c: "(0 \<le> pp \<and> pp \<le> 1) = True" "(0 \<le> pn \<and> pn \<le> 1) = True"
      by simp_all
    have "\<forall>w. confidence_breakdown pp pn w =
        (Inr (), advance 0 (?head @ [ProgressBar pp (PotableText (Pct1 pp)),
            ProgressBar pn (NotPotableText (Pct1 pn))]) [] w)"
      by (simp only: confidence_breakdown_def st_defs st_progress_text_def c if_True if_False)
        (simp add: seq_emit emit_run advance_advance)
    then show ?thesis by (intro exI conjI) (assumption, simp)
  qed
qed

lemma prediction_section_verdict:
  assumes "predict model x = Inr (label # ls)"
    and "predict_proba model x = Inr ((p0 # p1 # ps) # rows)"
  shows "filter is_verdict (ui (snd (prediction_section model x w))) =
           filter is_verdict (ui w) @ verdict_page label p1 p0"
proof -
  obtain r evs where run: "\<And>w. confidence_breakdown p1 p0 w = (r, advance 0 evs [] w)"
    and none: "filter is_verdict evs = []"
    using confidence_breakdown_no_verdict [of p1 p0] by blast
  have "prediction_section model x w =
      (r, advance 100 (spinner_page @ Markdown ResultsHeading # verdict_page label p1 p0 @ evs)
            [Predict x, PredictProba x] w)"
    by (simp add: prediction_section_def bind_run [OF spinner_block_run [OF assms]]
        display_results_def st_defs seq_emit index_def bind_ret seq_present run advance_advance)
  then show ?thesis
    by (simp add: advance_sel no_verdict_spinner none verdict_page_def)
qed

subsection \<open>The widgets and the vector\<close>

lemma held_value_in_bounds: "in_bounds fs cur \<Longrightarrow> in_bounds fs (held_value fs cur vs)"
  by (induction vs arbitrary: cur) simp_all

lemma held_value_snoc:
  "held_value fs cur (vs @ [v]) = (if in_bounds fs v then v else held_value fs cur vs)"
  by (induction vs arbitrary: cur) simp_all

lemma widget_value_in_bounds: "in_bounds (spec_of f) (widget_value ent f)"
  by (simp add: widget_value_def held_value_in_bounds default_in_bounds)

lemma widget_value_entry:
  "widget_value (ent(f := ent f @ [v])) f =
     (if in_bounds (spec_of f) v then v else widget_value ent f)"
  by (simp add: widget_value_def held_value_snoc)

lemma min_le_max: "min_value (spec_of f) \<le> max_value (spec_of f)"
  by (cases f) (simp_all add: spec_defs)

lemma input_data_order: "input_data i = [map (field_value i) trained_order]"
  by (simp add: input_data_def trained_order_def)

lemma sidebar_inputs_field: "field_value (sidebar_inputs ent) f = widget_value ent f"
  by (cases f) (simp_all add: sidebar_inputs_def)

lemma sidebar_widgets:
  "filter is_number_input sidebar_page = map (\<lambda>f. NumberInput f (spec_of f)) trained_order"
  by (simp add: sidebar_page_def trained_order_def is_number_input_def)

subsection \<open>The calls of a whole run\<close>

lemma make_prediction_calls:
  "\<exists>r. \<forall>w. make_prediction model x w =
     (r, advance 0 []
        (Predict x # (case predict model x of Inl err \<Rightarrow> [] | Inr pred \<Rightarrow> [PredictProba x])) w)"
proof (cases "predict model x")
  case (Inl err)
  then show ?thesis
    by (simp add: make_prediction_def call_runs)
next
  case pred: (Inr pred)
  show ?thesis
  proof (cases "predict_proba model x")
    case (Inl err)
    then show ?thesis
      by (simp add: make_prediction_def call_runs pred advance_advance)
  next
    case (Inr proba)
    have "uniform (bind (index proba 0) (\<lambda>prob.
       bind (index prob 1) (\<lambda>prob_potable.
       bind (index prob 0) (\<lambda>prob_not_potable.
       ret (pred, prob_potable, prob_not_potable)))))" (is "uniform ?rest")
      by (intro uniform_intros)
    moreover have "\<And>w. snd (?rest w) = w"
      by (simp add: index_def bind_ret bind_raise ret_def raise_def)
    ultimately obtain r where "\<And>w. ?rest w = (r, w)"
      unfolding uniform_def by (metis fst_conv prod.collapse)
    then show ?thesis
      by (simp add: make_prediction_def call_runs pred Inr advance_advance)
  qed
qed

lemma display_results_silent:
  "\<exists>r evs. \<forall>w. display_results res w = (r, advance 0 evs [] w)"
proof -
  obtain pred pp pn where res: "res = (pred, pp, pn)"
    by (cases res) auto
  obtain r evs where run: "\<And>w. confidence_breakdown pp pn w = (r, advance 0 evs [] w)"
    using confidence_breakdown_no_verdict [of pp pn] by blast
  show ?thesis
  proof (cases pred)
    case Nil
    then have "\<forall>w. display_results res w =
        (Inl (Uncaught IndexError), advance 0 [Markdown ResultsHeading] [] w)"
      by (simp add: res display_results_def st_defs seq_emit index_def bind_raise raise_def)
    then show ?thesis by blast
  next
    case (Cons label ls)
    then have "\<forall>w. display_results res w =
        (r, advance 0 (Markdown ResultsHeading # verdict_page label pp pn @ evs) [] w)"
      by (simp add: res display_results_def st_defs seq_emit index_def bind_ret seq_present
          run advance_advance)
    then show ?thesis by blast
  qed
qed

lemma prediction_section_calls:
  "\<exists>r t evs. \<forall>w. prediction_section model x w =
     (r, advance t evs
        (Predict x # (case predict model x of Inl err \<Rightarrow> [] | Inr pred \<Rightarrow> [PredictProba x])) w)"
proof -
  let ?cs = "Predict x # (case predict model x of Inl err \<Rightarrow> [] | Inr pred \<Rightarrow> [PredictProba x])"
  obtain r where mk: "\<And>w. make_prediction model x w = (r, advance 0 [] ?cs w)"
    using make_prediction_calls [of model x] by blast
  show ?thesis
  proof (cases r)
    case (Inl h)
    have "\<forall>w. prediction_section model x w =
        (Inl h, advance 100 ([Spinner, ProgressNew 0] @ progress_page) ?cs w)"
      by (simp add: prediction_section_def spinner_block_def st_defs st_progress_new_def
          bind_seq seq_emit seq_progress_loop bind_bind bind_def [of "make_prediction model x"]
          mk Inl advance_advance)
    then show ?thesis by blast
  next
    case (Inr res)
    obtain r' evs where disp: "\<And>w. display_results res w = (r', advance 0 evs [] w)"
      using display_results_silent [of res] by blast
    have "\<forall>w. prediction_section model x w =
        (r', advance 100 (spinner_page @ evs) ?cs w)"
      by (simp add: prediction_section_def spinner_block_def st_defs st_progress_new_def
          bind_seq seq_emit seq_progress_loop bind_bind bind_def [of "make_prediction model x"]
          mk Inr bind_ret disp advance_advance spinner_page_def)
    then show ?thesis by blast
  qed
qed


lemma app_clicked_calls:
  assumes "artifact_file e = Inr (model, scaler)"
    and "clicked e"
    and "transform scaler (input_data (sidebar_inputs (entered e))) = Inr scaled"
  shows "calls (snd (app e w)) =
     calls w @ [Transform (input_data (sidebar_inputs (entered e))), Predict scaled] @
       (case predict model scaled of Inl err \<Rightarrow> [] | Inr pred \<Rightarrow> [PredictProba scaled])"
proof -
  let ?cs = "Predict scaled # (case predict model scaled of Inl err \<Rightarrow> [] | Inr pred \<Rightarrow> [PredictProba scaled])"
  obtain r t evs where sect: "\<And>w. prediction_section model scaled w = (r, advance t evs ?cs w)"
    using prediction_section_calls [of model scaled] by blast
  show ?thesis
  proof (cases r)
    case (Inl h)
    then show ?thesis
      by (simp add: app_loaded [OF assms(1)] call_runs assms(2,3) st_defs seq_emit st_button_def
          bind_seq bind_ret seq_def [of "prediction_section model scaled"]
          bind_def [of "prediction_section model scaled"] sect advance_advance advance_sel)
  next
    case (Inr u)
    then show ?thesis
      by (simp add: app_loaded [OF assms(1)] call_runs assms(2,3) st_defs seq_emit st_button_def
          bind_seq bind_ret seq_def [of "prediction_section model scaled"]
          bind_def [of "prediction_section model scaled"] sect about_and_footer_run
          advance_advance advance_sel)
  qed
qed

lemma app_transform_raises:
  assumes "artifact_file e = Inr (model, scaler)"
    and "transform scaler (input_data (sidebar_inputs (entered e))) = Inl err"
  shows "app e w =
     (Inl (Uncaught err),
      advance 0 (header_page @ sidebar_page) [Transform (input_data (sidebar_inputs (entered e)))] w)"
  by (simp add: app_loaded [OF assms(1)] call_runs assms(2) advance_advance)

lemma bind_halt: "m w = (Inl h, w') \<Longrightarrow> bind m k w = (Inl h, w')"
  by (simp add: bind_def)

lemma seq_halt: "m w = (Inl h, w') \<Longrightarrow> seq m k w = (Inl h, w')"
  by (simp add: seq_def bind_def)

lemma prediction_section_predict_raises:
  assumes "predict model x = Inl err"
  shows "prediction_section model x w =
     (Inl (Uncaught err), advance 100 ([Spinner, ProgressNew 0] @ progress_page) [Predict x] w)"
proof -
  have "\<And>w. make_prediction model x w = (Inl (Uncaught err), advance 0 [] [Predict x] w)"
    by (simp add: make_prediction_def call_runs assms)
  then have "\<And>w. spinner_block model x w =
      (Inl (Uncaught err), advance 100 ([Spinner, ProgressNew 0] @ progress_page) [Predict x] w)"
    by (simp add: spinner_block_def st_defs st_progress_new_def seq_emit seq_progress_loop
        bind_halt advance_advance)
  then show ?thesis
    by (simp add: prediction_section_def bind_halt)
qed

lemma app_predict_raises:
  assumes "artifact_file e = Inr (model, scaler)"
    and "clicked e"
    and "transform scaler (input_data (sidebar_inputs (entered e))) = Inr scaled"
    and "predict model scaled = Inl err"
  shows "app e w =
     (Inl (Uncaught err),
      advance 100 (header_page @ sidebar_page @ button_page @ [Spinner, ProgressNew 0] @ progress_page)
        [Transform (input_data (sidebar_inputs (entered e))), Predict scaled] w)"
  by (simp add: app_loaded [OF assms(1)] call_runs assms(2,3) st_defs seq_emit st_button_def
      bind_seq bind_ret seq_halt [OF prediction_section_predict_raises [OF assms(4)]]
      advance_advance button_page_def)

lemma app_not_clicked:
  assumes "artifact_file e = Inr (model, scaler)"
    and "\<not> clicked e"
    and "transform scaler (input_data (sidebar_inputs (entered e))) = Inr scaled"
  shows "app e w =
     (Inr (),
      advance 0 (header_page @ sidebar_page @ button_page @ footer_page)
        [Transform (input_data (sidebar_inputs (entered e)))] w)"
  by (simp add: app_loaded [OF assms(1)] call_runs assms(2,3) st_defs seq_emit st_button_def
      bind_seq bind_ret seq_ret about_and_footer_run advance_advance button_page_def)

text \<open>With the artifact loaded, the first call of a run is the transform of the assembled inputs.\<close>

lemma app_first_call:
  assumes "artifact_file e = Inr (model, scaler)"
  shows "\<exists>rest. calls (snd (app e w)) =
           calls w @ Transform (input_data (sidebar_inputs (entered e))) # rest"
proof (cases "transform scaler (input_data (sidebar_inputs (entered e)))")
  case (Inl err)
  show ?thesis
    by (simp add: app_transform_raises [OF assms Inl] advance_sel)
next
  case (Inr scaled)
  let ?after = "seq (st_markdown Rule)
      (seq (st_columns [1, 2, 1])
      (bind (st_button (clicked e)) (\<lambda>predict_button.
       seq (if predict_button then prediction_section model scaled else ret ())
           about_and_footer)))"
  have "uniform ?after"
    unfolding st_button_def about_and_footer_def st_defs
    by (simp add: uniform_intros uniform_prediction_section)
  then obtain r t evs cs where after: "\<And>w. ?after w = (r, advance t evs cs w)"
    unfolding uniform_def by blast
  have "app e w =
      ?after (advance 0 (header_page @ sidebar_page)
                [Transform (input_data (sidebar_inputs (entered e)))] w)"
    by (simp add: app_loaded [OF assms] call_runs Inr advance_advance)
  then have "app e w =
      (r, advance t (header_page @ sidebar_page @ evs)
            (Transform (input_data (sidebar_inputs (entered e))) # cs) w)"
    by (simp only: after advance_advance) simp
  then show ?thesis
    by (simp add: advance_sel)
qed

subsection \<open>The sample run\<close>

lemma sample_scaled:
  "transform sample_scaler (input_data (sidebar_inputs (entered sample_env))) =
     Inr [[14, 300, 40000, 14, 660, 800, 20, 120, 6]]"
  by (simp add: sample_scaler_def sample_env_def input_data_def sidebar_inputs_def
      widget_value_def no_entries_def spec_defs)

section \<open>The claims\<close>

text \<open>
  C8. In the confidence breakdown the expression chosen for the delta when the probability
  is above 0.5 is the expression chosen otherwise: both format the probability less 0.5,
  so the two branches are equal at every probability and the conditional chooses nothing.
\<close>

theorem metric_delta_branches_equal:
  "delta_above p = delta_otherwise p \<and> metric_delta p = Pct1 (p - 0.5)"
  by (simp add: delta_above_def delta_otherwise_def metric_delta_def)

theorem metric_delta_branches_equal_witness:
  "delta_above 0.75 = delta_otherwise 0.75 \<and> metric_delta 0.75 = Pct1 (0.75 - 0.5)"
  using metric_delta_branches_equal [of "0.75"] by simp

text \<open>
  C1. In every prediction request the presenter shows, for label 1, the potable card with
  the confidence \<open>p_potable\<close> (the second entry of the first row of \<^verbatim>\<open>predict_proba\<close>)
  and, for label 0, the not-potable card with the confidence \<open>p_not_potable\<close> (the first
  entry). These two are the only elements of the request that tell a verdict, so the
  confidence shown is the probability of the class of the label, never that of the other
  class, and the card follows the label whatever the probabilities are.
\<close>

theorem presenter_reports_class_of_label:
  assumes "predict model x = Inr (label # ls)"
    and "predict_proba model x = Inr ((p_not_potable # p_potable # ps) # rows)"
  shows "(label = 1 \<longrightarrow>
            filter is_verdict (ui (snd (prediction_section model x w))) =
              filter is_verdict (ui w) @
              [Markdown SafeCard, SuccessBox (ConfidenceLevel (Pct1 p_potable))]) \<and>
         (label = 0 \<longrightarrow>
            filter is_verdict (ui (snd (prediction_section model x w))) =
              filter is_verdict (ui w) @
              [Markdown UnsafeCard, ErrorBox (ConfidenceLevel (Pct1 p_not_potable))])"
  using prediction_section_verdict [OF assms, of w] by (simp add: verdict_page_def)

theorem presenter_reports_class_of_label_witness:
  "predict low_threshold_model [[1]] = Inr [1] \<and>
   predict_proba low_threshold_model [[1]] = Inr [[0.7, 0.3]] \<and>
   filter is_verdict (ui (snd (prediction_section low_threshold_model [[1]] world0))) =
     [Markdown SafeCard, SuccessBox (ConfidenceLevel (Pct1 0.3))]"
  using presenter_reports_class_of_label
    [of low_threshold_model "[[1]]" 1 "[]" "0.7" "0.3" "[]" "[]" world0]
  by (simp add: low_threshold_model_def world0_def)

text \<open>
  C9. The loop of sleeps before the prediction only presents: it adds a second to the clock
  and a hundred positions of the bar to the page, makes no call and is given neither the
  input vector, the scaled vector nor the artifact. The block under the spinner returns the
  same label and probabilities, through the same calls, as the block without the loop.
\<close>

theorem progress_delay_frame:
  "progress_loop w = (Inr (), w\<lparr>clock := clock w + 100, ui := ui w @ progress_page\<rparr>) \<and>
   fst (spinner_block model x w) = fst (spinner_block_no_delay model x w) \<and>
   calls (snd (spinner_block model x w)) = calls (snd (spinner_block_no_delay model x w))"
proof -
  let ?rest = "bind (make_prediction model x) (\<lambda>r. seq progress_bar_empty (ret r))"
  have "uniform ?rest"
    by (simp add: uniform_intros uniform_make_prediction st_defs)
  then obtain r t evs cs where rest: "\<And>w. ?rest w = (r, advance t evs cs w)"
    unfolding uniform_def by blast
  have slow: "spinner_block model x w = (r, advance (100 + t) ([Spinner, ProgressNew 0] @ progress_page @ evs) cs w)"
    by (simp add: spinner_block_def st_defs st_progress_new_def seq_emit seq_progress_loop
        rest [unfolded st_defs] advance_advance)
  have fast: "spinner_block_no_delay model x w = (r, advance t ([Spinner, ProgressNew 0] @ evs) cs w)"
    by (simp add: spinner_block_no_delay_def st_defs st_progress_new_def seq_emit
        rest [unfolded st_defs] advance_advance)
  show ?thesis
    by (simp add: slow fast advance_sel progress_loop_run advance_def)
qed

theorem progress_delay_frame_witness:
  "fst (spinner_block sample_model [[1]] world0) =
   fst (spinner_block_no_delay sample_model [[1]] world0)"
  by (rule conjunct1 [OF conjunct2 [OF progress_delay_frame]])

text \<open>
  C2. The feature assembler packs the nine current field values into one row of nine entries
  in the trained order pH, Hardness, Solids, Chloramines, Sulfate, Conductivity,
  OrganicCarbon, Trihalomethanes, Turbidity; each entry is what the widget of that field
  holds. It is a function of these nine values alone (it is no program over the world, so
  it has no effect there): two states that agree on the nine values give the same vector.
\<close>

theorem feature_vector_in_trained_order:
  "input_data i = [map (field_value i) trained_order] \<and>
   length (hd (input_data i)) = 9 \<and>
   fst (sidebar ent w) = Inr (sidebar_inputs ent) \<and>
   input_data (sidebar_inputs ent) = [map (widget_value ent) trained_order] \<and>
   ((\<forall>f. field_value i f = field_value j f) \<longrightarrow> input_data i = input_data j)"
  by (simp add: input_data_order sidebar_run sidebar_inputs_field) (simp add: trained_order_def)

theorem feature_vector_in_trained_order_witness:
  "input_data (sidebar_inputs no_entries) =
     [[7.0, 150.0, 20000.0, 7.0, 330.0, 400.0, 10.0, 60.0, 3.0]]"
proof -
  have "input_data (sidebar_inputs no_entries) = [map (widget_value no_entries) trained_order]"
    using feature_vector_in_trained_order [of "sidebar_inputs no_entries" no_entries world0]
    by blast
  then show ?thesis
    by (simp add: trained_order_def widget_value_def no_entries_def spec_defs)
qed

text \<open>
  C4. Each of the nine fields is created with the bounds, default and step of the interface
  table. The sidebar forwards, for each field, exactly the value its widget holds: whatever
  the user enters, each of the nine variables, every entry of the vector assembled from
  them and every entry of the matrix the script hands to \<^verbatim>\<open>scaler.transform\<close> lies
  within the field's own bounds, both ends included. An entry outside the bounds is rejected
  and leaves the held value as it was; the bounds themselves, entered exactly, are accepted.
\<close>

theorem inputs_within_declared_bounds:
  "map fst interface_table = trained_order \<and>
   map row_spec interface_table = map spec_of trained_order \<and>
   filter is_number_input (ui (snd (sidebar ent w))) =
     filter is_number_input (ui w) @ map (\<lambda>f. NumberInput f (spec_of f)) trained_order \<and>
   fst (sidebar ent w) = Inr (sidebar_inputs ent) \<and>
   (\<forall>i. fst (sidebar ent w) = Inr i \<longrightarrow>
      (\<forall>f. field_value i f = widget_value ent f \<and> in_bounds (spec_of f) (field_value i f)) \<and>
      list_all2 (\<lambda>f v. in_bounds (spec_of f) v) trained_order (hd (input_data i))) \<and>
   (artifact_file e = Inr (model, scaler) \<longrightarrow>
      (\<exists>x rest. calls (snd (app e w)) = calls w @ Transform x # rest \<and>
         x = [map (widget_value (entered e)) trained_order] \<and>
         list_all2 (\<lambda>f v. in_bounds (spec_of f) v) trained_order (hd x))) \<and>
   (\<forall>f. in_bounds (spec_of f) (widget_value ent f)) \<and>
   list_all2 (\<lambda>f v. in_bounds (spec_of f) v) trained_order (hd (input_data (sidebar_inputs ent))) \<and>
   (\<forall>f v. \<not> in_bounds (spec_of f) v \<longrightarrow>
      widget_value (ent(f := ent f @ [v])) f = widget_value ent f) \<and>
   (\<forall>f. widget_value (ent(f := ent f @ [min_value (spec_of f)])) f = min_value (spec_of f) \<and>
        widget_value (ent(f := ent f @ [max_value (spec_of f)])) f = max_value (spec_of f))"
proof -
  have table: "map fst interface_table = trained_order"
    "map row_spec interface_table = map spec_of trained_order"
    by (simp_all add: interface_table_def trained_order_def row_spec_def spec_defs)
  have widgets: "filter is_number_input (ui (snd (sidebar ent w))) =
     filter is_number_input (ui w) @ map (\<lambda>f. NumberInput f (spec_of f)) trained_order"
    by (simp add: sidebar_run advance_sel sidebar_widgets)
  have forwarded: "fst (sidebar ent w) = Inr (sidebar_inputs ent)"
    by (simp add: sidebar_run)
  have vector: "list_all2 (\<lambda>f v. in_bounds (spec_of f) v) trained_order
     (hd (input_data (sidebar_inputs ent')))" for ent'
    by (simp add: input_data_order sidebar_inputs_field list_all2_conv_all_nth
        widget_value_in_bounds)
  have row: "input_data (sidebar_inputs ent') = [map (widget_value ent') trained_order]" for ent'
    by (simp add: input_data_order sidebar_inputs_field)
  have collected: "\<forall>i. fst (sidebar ent w) = Inr i \<longrightarrow>
      (\<forall>f. field_value i f = widget_value ent f \<and> in_bounds (spec_of f) (field_value i f)) \<and>
      list_all2 (\<lambda>f v. in_bounds (spec_of f) v) trained_order (hd (input_data i))"
    using vector [of ent]
    by (simp add: forwarded sidebar_inputs_field widget_value_in_bounds)
  have sent: "artifact_file e = Inr (model, scaler) \<longrightarrow>
      (\<exists>x rest. calls (snd (app e w)) = calls w @ Transform x # rest \<and>
         x = [map (widget_value (entered e)) trained_order] \<and>
         list_all2 (\<lambda>f v. in_bounds (spec_of f) v) trained_order (hd x))"
  proof
    assume loaded: "artifact_file e = Inr (model, scaler)"
    from app_first_call [OF loaded, of w] obtain rest where
      "calls (snd (app e w)) = calls w @ Transform (input_data (sidebar_inputs (entered e))) # rest"
      by blast
    then show "\<exists>x rest. calls (snd (app e w)) = calls w @ Transform x # rest \<and>
         x = [map (widget_value (entered e)) trained_order] \<and>
         list_all2 (\<lambda>f v. in_bounds (spec_of f) v) trained_order (hd x)"
      using vector [of "entered e"] row [of "entered e"] by auto
  qed
  have bounds: "\<And>f. in_bounds (spec_of f) (min_value (spec_of f))"
    "\<And>f. in_bounds (spec_of f) (max_value (spec_of f))"
    using min_le_max by (simp_all add: in_bounds_def)
  have rest: "(\<forall>f. in_bounds (spec_of f) (widget_value ent f)) \<and>
   (\<forall>f v. \<not> in_bounds (spec_of f) v \<longrightarrow>
      widget_value (ent(f := ent f @ [v])) f = widget_value ent f) \<and>
   (\<forall>f. widget_value (ent(f := ent f @ [min_value (spec_of f)])) f = min_value (spec_of f) \<and>
        widget_value (ent(f := ent f @ [max_value (spec_of f)])) f = max_value (spec_of f))"
    by (simp add: widget_value_in_bounds widget_value_entry bounds)
  show ?thesis
    using table widgets forwarded collected sent vector [of ent] rest by blast
qed

theorem inputs_within_declared_bounds_witness:
  "fst (sidebar (no_entries(PH := [15, 14])) world0) =
     Inr (sidebar_inputs (no_entries(PH := [15, 14]))) \<and>
   ph (sidebar_inputs (no_entries(PH := [15, 14]))) = 14 \<and>
   ph (sidebar_inputs (no_entries(PH := [- 1]))) = 7 \<and>
   in_bounds (spec_of PH) (ph (sidebar_inputs (no_entries(PH := [99])))) \<and>
   artifact_file sample_env = Inr (sample_model, sample_scaler) \<and>
   hd (calls (snd (app sample_env world0))) = Transform [[7, 150, 20000, 7, 330, 400, 10, 60, 3]]"
proof -
  have loaded: "artifact_file sample_env = Inr (sample_model, sample_scaler)"
    by (simp add: sample_env_def)
  have forwarded: "fst (sidebar (no_entries(PH := [15, 14])) world0) =
      Inr (sidebar_inputs (no_entries(PH := [15, 14])))"
    using inputs_within_declared_bounds [of "no_entries(PH := [15, 14])" world0 sample_env sample_model sample_scaler]
    by blast
  have "\<exists>x rest. calls (snd (app sample_env world0)) = calls world0 @ Transform x # rest \<and>
      x = [map (widget_value (entered sample_env)) trained_order]"
    using inputs_within_declared_bounds [of no_entries world0 sample_env sample_model sample_scaler] loaded
    by blast
  then have "hd (calls (snd (app sample_env world0))) =
      Transform [map (widget_value (entered sample_env)) trained_order]"
    by (auto simp: world0_def)
  then have sent: "hd (calls (snd (app sample_env world0))) =
      Transform [[7, 150, 20000, 7, 330, 400, 10, 60, 3]]"
    by (simp add: sample_env_def trained_order_def widget_value_def no_entries_def spec_defs)
  have held: "ph (sidebar_inputs (no_entries(PH := [15, 14]))) = 14"
    "ph (sidebar_inputs (no_entries(PH := [- 1]))) = 7"
    "in_bounds (spec_of PH) (ph (sidebar_inputs (no_entries(PH := [99]))))"
    by (simp_all add: sidebar_inputs_def widget_value_def in_bounds_def spec_defs)
  show ?thesis
    using loaded forwarded sent held by simp
qed

text \<open>
  C3, as the script has it. When the artifact file is absent (\<^verbatim>\<open>FileNotFoundError\<close>) the
  run shows the message that the model file was not found and stops: after the page
  configuration and the style sheet nothing else is on the page, no header, no input field,
  no button. Any other exception of opening or unpickling the file is not caught by the
  script and ends the run uncaught, without that message.
\<close>

theorem missing_artifact_halts:
  "(artifact_file e = Inl FileNotFoundError \<longrightarrow>
      app e w = (Inl Stopped, advance 0 [PageConfig, Markdown Css, ErrorBox ModelFileNotFound] [] w)) \<and>
   (artifact_file e = Inl err \<and> err \<noteq> FileNotFoundError \<longrightarrow>
      app e w = (Inl (Uncaught err), advance 0 [PageConfig, Markdown Css] [] w))"
  by (simp add: app_def load_model_def st_defs seq_emit bind_seq bind_stop bind_raise
      st_stop_def raise_def advance_advance)

theorem missing_artifact_halts_witness:
  "app missing_file_env world0 =
     (Inl Stopped, \<lparr>clock = 0, ui = [PageConfig, Markdown Css, ErrorBox ModelFileNotFound], calls = []\<rparr>)"
  using missing_artifact_halts [of missing_file_env world0]
  by (simp add: missing_file_env_def world0_def advance_def)

text \<open>
  C3 as stated fails for a file that is present but unreadable: opening it raises
  \<^verbatim>\<open>PermissionError\<close>, which the handler for \<^verbatim>\<open>FileNotFoundError\<close> does not catch; the
  run ends with the uncaught exception and the message of the script is not shown.
\<close>

theorem unreadable_artifact_counterexample:
  "fst (app unreadable_file_env world0) = Inl (Uncaught PermissionError) \<and>
   ui (snd (app unreadable_file_env world0)) = [PageConfig, Markdown Css]"
  by (simp add: unreadable_file_env_def world0_def app_def load_model_def st_defs seq_emit
      bind_raise raise_def advance_def)

text \<open>
  C10. In a run started by the button, with the artifact loaded and a transform that
  returns, the script calls \<^verbatim>\<open>scaler.transform\<close> exactly once, on the assembled inputs,
  then \<^verbatim>\<open>model.predict\<close> and (when that returns) \<^verbatim>\<open>model.predict_proba\<close>, both
  on the one scaled vector the transform returned. The label shown and the probabilities
  shown are those two answers: the verdict and the breakdown describe the same sample.
\<close>

theorem label_and_probabilities_of_one_sample:
  assumes "artifact_file e = Inr (model, scaler)"
    and "clicked e"
    and "transform scaler (input_data (sidebar_inputs (entered e))) = Inr scaled"
  shows "calls (snd (app e w)) =
           calls w @ [Transform (input_data (sidebar_inputs (entered e))), Predict scaled] @
             (case predict model scaled of Inl err \<Rightarrow> [] | Inr pred \<Rightarrow> [PredictProba scaled]) \<and>
         (predict model scaled = Inr (label # ls) \<and>
          predict_proba model scaled = Inr ((p0 # p1 # ps) # rows) \<and>
          0 \<le> p0 \<and> p0 \<le> 1 \<and> 0 \<le> p1 \<and> p1 \<le> 1 \<longrightarrow>
            app e w =
              (Inr (),
               advance 100
                 (header_page @ sidebar_page @ button_page @ spinner_page @
                  Markdown ResultsHeading # verdict_page label p1 p0 @ breakdown_page p1 p0 @
                  footer_page)
                 [Transform (input_data (sidebar_inputs (entered e))),
                  Predict scaled, PredictProba scaled]
                 w))"
  using app_clicked_calls [OF assms, of w] app_clicked_run [OF assms, of label ls p0 p1 ps rows w]
  by simp

theorem label_and_probabilities_of_one_sample_witness:
  "calls (snd (app sample_env world0)) =
     [Transform [[7, 150, 20000, 7, 330, 400, 10, 60, 3]],
      Predict [[14, 300, 40000, 14, 660, 800, 20, 120, 6]],
      PredictProba [[14, 300, 40000, 14, 660, 800, 20, 120, 6]]] \<and>
   filter is_verdict (ui (snd (app sample_env world0))) =
     [Markdown SafeCard, SuccessBox (ConfidenceLevel (Pct1 0.75))]"
proof -
  have loaded: "artifact_file sample_env = Inr (sample_model, sample_scaler)"
    and clicked: "clicked sample_env"
    by (simp_all add: sample_env_def)
  have pred: "predict sample_model [[14, 300, 40000, 14, 660, 800, 20, 120, 6]] = Inr [1]"
    and proba: "predict_proba sample_model [[14, 300, 40000, 14, 660, 800, 20, 120, 6]] = Inr [[0.25, 0.75]]"
    by (simp_all add: sample_model_def)
  have data: "input_data (sidebar_inputs (entered sample_env)) =
      [[7, 150, 20000, 7, 330, 400, 10, 60, 3]]"
    by (simp add: sample_env_def input_data_def sidebar_inputs_def widget_value_def
        no_entries_def spec_defs)
  have none: "filter is_verdict (header_page @ sidebar_page @ button_page @ spinner_page) = []"
    "filter is_verdict (breakdown_page p q) = []" "filter is_verdict footer_page = []" for p q
    by (simp_all add: header_page_def sidebar_page_def button_page_def no_verdict_spinner
        breakdown_page_def footer_page_def)
  from label_and_probabilities_of_one_sample
    [OF loaded clicked sample_scaled, of world0 1 "[]" "0.25" "0.75" "[]" "[]"]
  show ?thesis
    using none by (simp add: pred proba data advance_sel world0_def verdict_page_def)
qed

text \<open>
  C7, as the script has it. The script has no check of the dimensions and no condition of
  its own for a mismatch: it always hands one row of nine entries to
  \<^verbatim>\<open>scaler.transform\<close>. When the transform raises, the exception ends the run
  uncaught before the button is drawn; when, in a run started by the button,
  \<^verbatim>\<open>model.predict\<close> raises on the scaled vector, the exception ends the run uncaught
  under the spinner. In both cases no verdict is on the page.
\<close>

theorem shape_mismatch_not_checked:
  assumes "artifact_file e = Inr (model, scaler)"
  shows "map length (input_data (sidebar_inputs (entered e))) = [9] \<and>
         (transform scaler (input_data (sidebar_inputs (entered e))) = Inl err \<longrightarrow>
            app e w =
              (Inl (Uncaught err),
               advance 0 (header_page @ sidebar_page)
                 [Transform (input_data (sidebar_inputs (entered e)))] w)) \<and>
         (clicked e \<and> transform scaler (input_data (sidebar_inputs (entered e))) = Inr scaled \<and>
          predict model scaled = Inl err \<longrightarrow>
            app e w =
              (Inl (Uncaught err),
               advance 100
                 (header_page @ sidebar_page @ button_page @ [Spinner, ProgressNew 0] @
                  progress_page)
                 [Transform (input_data (sidebar_inputs (entered e))), Predict scaled] w))"
  using app_transform_raises [OF assms, of err w] app_predict_raises [OF assms, of scaled err w]
  by (simp add: input_data_def)

theorem shape_mismatch_not_checked_witness:
  "app strict_env world0 =
     (Inl (Uncaught ValueError),
      \<lparr>clock = 0, ui = header_page @ sidebar_page,
       calls = [Transform [[7, 150, 20000, 7, 330, 400, 10, 60, 3]]]\<rparr>)"
proof -
  have loaded: "artifact_file strict_env = Inr (eight_column_model, strict_scaler)"
    by (simp add: strict_env_def)
  have data: "input_data (sidebar_inputs (entered strict_env)) =
      [[7, 150, 20000, 7, 330, 400, 10, 60, 3]]"
    by (simp add: strict_env_def input_data_def sidebar_inputs_def widget_value_def
        no_entries_def spec_defs)
  have raises: "transform strict_scaler (input_data (sidebar_inputs (entered strict_env))) = Inl ValueError"
    by (simp add: data strict_scaler_def)
  from shape_mismatch_not_checked [OF loaded, of ValueError world0] raises
  show ?thesis
    by (simp add: data advance_def world0_def)
qed

text \<open>
  C7 as stated fails for an artifact fitted on eight columns whose transform does not raise
  but cuts the row of nine down to eight: the run ends normally and shows a verdict, no
  error is shown, and the vector has been coerced without a word.
\<close>

theorem shape_mismatch_counterexample:
  "n_features_in truncating_scaler = 8 \<and>
   map length (input_data (sidebar_inputs (entered truncating_env))) = [9] \<and>
   fst (app truncating_env world0) = Inr () \<and>
   calls (snd (app truncating_env world0)) =
     [Transform [[7, 150, 20000, 7, 330, 400, 10, 60, 3]],
      Predict [[7, 150, 20000, 7, 330, 400, 10, 60]],
      PredictProba [[7, 150, 20000, 7, 330, 400, 10, 60]]] \<and>
   filter is_verdict (ui (snd (app truncating_env world0))) =
     [Markdown SafeCard, SuccessBox (ConfidenceLevel (Pct1 0.75))]"
proof -
  have loaded: "artifact_file truncating_env = Inr (eight_column_model, truncating_scaler)"
    and clicked: "clicked truncating_env"
    by (simp_all add: truncating_env_def)
  have data: "input_data (sidebar_inputs (entered truncating_env)) =
      [[7, 150, 20000, 7, 330, 400, 10, 60, 3]]"
    by (simp add: truncating_env_def input_data_def sidebar_inputs_def widget_value_def
        no_entries_def spec_defs)
  have scaled: "transform truncating_scaler (input_data (sidebar_inputs (entered truncating_env))) =
      Inr [[7, 150, 20000, 7, 330, 400, 10, 60]]"
    by (simp add: data truncating_scaler_def)
  have pred: "predict eight_column_model [[7, 150, 20000, 7, 330, 400, 10, 60]] = Inr [1]"
    and proba: "predict_proba eight_column_model [[7, 150, 20000, 7, 330, 400, 10, 60]] = Inr [[0.25, 0.75]]"
    by (simp_all add: eight_column_model_def)
  have none: "filter is_verdict (header_page @ sidebar_page @ button_page @ spinner_page) = []"
    "filter is_verdict (breakdown_page p q) = []" "filter is_verdict footer_page = []" for p q
    by (simp_all add: header_page_def sidebar_page_def button_page_def no_verdict_spinner
        breakdown_page_def footer_page_def)
  have "app truncating_env world0 =
     (Inr (),
      advance 100
        (header_page @ sidebar_page @ button_page @ spinner_page @
         Markdown ResultsHeading # verdict_page 1 0.75 0.25 @ breakdown_page 0.75 0.25 @ footer_page)
        [Transform (input_data (sidebar_inputs (entered truncating_env))),
         Predict [[7, 150, 20000, 7, 330, 400, 10, 60]],
         PredictProba [[7, 150, 20000, 7, 330, 400, 10, 60]]]
        world0)"
    by (rule app_clicked_run [OF loaded clicked scaled pred proba]) simp_all
  then show ?thesis
    using none by (simp add: data advance_sel world0_def verdict_page_def truncating_scaler_def)
qed

end
